theory Spec2Isabelle
  imports Complex_Main "HOL-Library.Word" "HOL-Library.Product_Lexorder"
begin

section \<open>Python values and exceptions\<close>

text \<open>
  Every \<^verbatim>\<open>raise\<close> of the service and of the library calls it makes is a value: an
  exception has a kind and the text that \<^verbatim>\<open>str(e)\<close> gives. A call that can raise
  returns \<open>exn + 'a\<close>, with \<open>Inl\<close> for the exception.
\<close>

datatype exn_kind =
  FileNotFoundError | TypeError | ValueError | IndexError | KeyError | AttributeError
  | LibraryError

datatype exn = Exn exn_kind string

fun exn_str :: "exn \<Rightarrow> string" where
  "exn_str (Exn k m) = m"

definition bind_exn :: "exn + 'a \<Rightarrow> ('a \<Rightarrow> exn + 'b) \<Rightarrow> exn + 'b" where
  \<comment> \<open>one statement after the other: the first exception raised ends the block\<close>
  "bind_exn r f = (case r of Inl e \<Rightarrow> Inl e | Inr x \<Rightarrow> f x)"

fun map_exn :: "('a \<Rightarrow> exn + 'b) \<Rightarrow> 'a list \<Rightarrow> exn + 'b list" where
  \<comment> \<open>a list comprehension \<^verbatim>\<open>[f(x) for x in xs]\<close> whose \<open>f\<close> can raise\<close>
  "map_exn f [] = Inr []"
| "map_exn f (x # xs) =
     bind_exn (f x) (\<lambda>y. bind_exn (map_exn f xs) (\<lambda>ys. Inr (y # ys)))"

text \<open>
  A JSON value, which is also the Python value that \<^verbatim>\<open>json.load\<close> gives for it:
  \<^verbatim>\<open>None\<close>, a bool, an int, a float, a str, a list, or a dict, held as the list of
  its items. The responses of the service are such values, and so is the global
  \<^verbatim>\<open>breeds\<close>: \<^verbatim>\<open>None\<close> at import time, then whatever \<^verbatim>\<open>load_breeds\<close> returned,
  the integer of its \<^verbatim>\<open>except\<close> branch or the content of \<^verbatim>\<open>breeds.json\<close>, whatever
  kind of value that file holds.
\<close>

datatype json =
  JNull | JBool bool | JInt int | JNum real | JStr string | JList "json list"
  | JObj "(string \<times> json) list"


definition py_type_name :: "json \<Rightarrow> string" where
  "py_type_name v = (case v of
       JNull \<Rightarrow> ''NoneType'' | JBool b \<Rightarrow> ''bool'' | JInt i \<Rightarrow> ''int'' | JNum x \<Rightarrow> ''float''
     | JStr s \<Rightarrow> ''str'' | JList xs \<Rightarrow> ''list'' | JObj kvs \<Rightarrow> ''dict'')"

definition quoted :: "string \<Rightarrow> string" where
  "quoted s = CHR 0x27 # s @ [CHR 0x27]"

definition py_len :: "json \<Rightarrow> exn + nat" where
  \<comment> \<open>\<^verbatim>\<open>len(v)\<close>\<close>
  "py_len v = (case v of
       JStr s \<Rightarrow> Inr (length s)
     | JList xs \<Rightarrow> Inr (length xs)
     | JObj kvs \<Rightarrow> Inr (length kvs)
     | _ \<Rightarrow> Inl (Exn TypeError (''object of type '' @ quoted (py_type_name v) @ '' has no len()'')))"

definition py_truthy :: "json \<Rightarrow> bool" where
  \<comment> \<open>the truth value of \<open>v\<close> in a condition\<close>
  "py_truthy v = (case v of
       JNull \<Rightarrow> False | JBool b \<Rightarrow> b | JInt i \<Rightarrow> i \<noteq> 0 | JNum x \<Rightarrow> x \<noteq> 0
     | JStr s \<Rightarrow> s \<noteq> [] | JList xs \<Rightarrow> xs \<noteq> [] | JObj kvs \<Rightarrow> kvs \<noteq> [])"

definition py_getitem :: "(nat \<Rightarrow> string) \<Rightarrow> json \<Rightarrow> nat \<Rightarrow> exn + json" where
  \<comment> \<open>\<^verbatim>\<open>v[idx]\<close> for an index that numpy returned, so never negative; \<open>repr\<close> gives the
      text of such an index, which a \<^verbatim>\<open>KeyError\<close> carries\<close>
  "py_getitem repr v idx = (case v of
       JList xs \<Rightarrow> if idx < length xs then Inr (xs ! idx)
                   else Inl (Exn IndexError ''list index out of range'')
     | JStr s \<Rightarrow> if idx < length s then Inr (JStr [s ! idx])
                 else Inl (Exn IndexError ''string index out of range'')
     | JObj kvs \<Rightarrow> Inl (Exn KeyError (repr idx))
     | _ \<Rightarrow> Inl (Exn TypeError (quoted (py_type_name v) @ '' object is not subscriptable'')))"

definition py_iter :: "json \<Rightarrow> exn + json list" where
  \<comment> \<open>the values a \<^verbatim>\<open>for x in v\<close> goes through: the elements of a list, the
      characters of a str, the keys of a dict\<close>
  "py_iter v = (case v of
       JList xs \<Rightarrow> Inr xs
     | JStr s \<Rightarrow> Inr (map (\<lambda>c. JStr [c]) s)
     | JObj kvs \<Rightarrow> Inr (map (\<lambda>kv. JStr (fst kv)) kvs)
     | _ \<Rightarrow> Inl (Exn TypeError (quoted (py_type_name v) @ '' object is not iterable'')))"

definition py_slice_to :: "exn \<Rightarrow> nat \<Rightarrow> json \<Rightarrow> exn + json" where
  \<comment> \<open>\<^verbatim>\<open>v[:k]\<close> for a literal \<open>k\<close>; \<open>dict_error\<close> is what slicing a dict raises\<close>
  "py_slice_to dict_error k v = (case v of
       JList xs \<Rightarrow> Inr (JList (take k xs))
     | JStr s \<Rightarrow> Inr (JStr (take k s))
     | JObj kvs \<Rightarrow> Inl dict_error
     | _ \<Rightarrow> Inl (Exn TypeError (quoted (py_type_name v) @ '' object is not subscriptable'')))"

definition py_slice_from :: "int \<Rightarrow> 'a list \<Rightarrow> 'a list" where
  \<comment> \<open>\<^verbatim>\<open>xs[i:]\<close>: a negative start counts from the end and is clipped at 0\<close>
  "py_slice_from i xs =
     (let n = int (length xs); j = (if i < 0 then max 0 (n + i) else min i n)
      in drop (nat j) xs)"

definition py_startswith :: "string \<Rightarrow> string \<Rightarrow> bool" where
  "py_startswith s pre = (take (length pre) s = pre)"

definition py_round :: "real \<Rightarrow> nat \<Rightarrow> real" where
  \<comment> \<open>\<^verbatim>\<open>round(x, nd)\<close>: to \<open>nd\<close> decimals, a tie going to the even neighbour\<close>
  "py_round x nd =
     (let y = x * 10 ^ nd; f = \<lfloor>y\<rfloor>; d = y - of_int f
      in of_int (if d < 1 / 2 then f else if 1 / 2 < d then f + 1
                 else if even f then f else f + 1) / 10 ^ nd)"

subsection \<open>Strings\<close>

text \<open>
  Breed names are ASCII: a \<open>char\<close> is a byte, the letters \<open>a\<close> to \<open>z\<close> and \<open>A\<close> to
  \<open>Z\<close> are the cased characters, and every other byte is left as it is.
\<close>

definition is_lower :: "char \<Rightarrow> bool" where
  "is_lower c = (97 \<le> (of_char c :: nat) \<and> (of_char c :: nat) \<le> 122)"

definition is_upper :: "char \<Rightarrow> bool" where
  "is_upper c = (65 \<le> (of_char c :: nat) \<and> (of_char c :: nat) \<le> 90)"

definition is_cased :: "char \<Rightarrow> bool" where
  "is_cased c = (is_lower c \<or> is_upper c)"

definition to_upper :: "char \<Rightarrow> char" where
  "to_upper c = (if is_lower c then char_of ((of_char c :: nat) - 32) else c)"

definition to_lower :: "char \<Rightarrow> char" where
  "to_lower c = (if is_upper c then char_of ((of_char c :: nat) + 32) else c)"

definition str_replace :: "char \<Rightarrow> char \<Rightarrow> string \<Rightarrow> string" where
  \<comment> \<open>\<^verbatim>\<open>s.replace(a, b)\<close> for one-character \<open>a\<close> and \<open>b\<close>\<close>
  "str_replace a b s = map (\<lambda>c. if c = a then b else c) s"

fun title_from :: "bool \<Rightarrow> string \<Rightarrow> string" where
  "title_from previous_is_cased [] = []"
| "title_from previous_is_cased (c # cs) =
     (if previous_is_cased then to_lower c else to_upper c) # title_from (is_cased c) cs"

definition str_title :: "string \<Rightarrow> string" where
  \<comment> \<open>\<^verbatim>\<open>s.title()\<close>: a cased character is upper-cased after an uncased one (or at the
      start) and lower-cased after a cased one\<close>
  "str_title s = title_from False s"

definition display_name :: "string \<Rightarrow> string" where
  \<comment> \<open>the expression \<^verbatim>\<open>breed.replace("_", " ").title()\<close> of the handlers\<close>
  "display_name breed = str_title (str_replace (CHR ''_'') (CHR '' '') breed)"

definition py_display :: "json \<Rightarrow> exn + string" where
  \<comment> \<open>\<^verbatim>\<open>v.replace("_", " ").title()\<close> for a value \<open>v\<close> that is a str or not\<close>
  "py_display v = (case v of
       JStr s \<Rightarrow> Inr (display_name s)
     | _ \<Rightarrow> Inl (Exn AttributeError
               (quoted (py_type_name v) @ '' object has no attribute '' @ quoted ''replace'')))"

subsection \<open>Arrays\<close>

text \<open>
  A model output is a two-dimensional array, one row per image of the batch. Its
  components are finite floats; they are compared and never added here, so they are
  taken as reals with the order of their values.
\<close>

fun argmax_loop :: "real list \<Rightarrow> nat \<Rightarrow> nat \<Rightarrow> real \<Rightarrow> nat" where
  "argmax_loop [] i max_ind mp = max_ind"
| "argmax_loop (x # xs) i max_ind mp =
     (if mp < x then argmax_loop xs (Suc i) i x else argmax_loop xs (Suc i) max_ind mp)"

definition np_argmax :: "real list list \<Rightarrow> exn + nat" where
  \<comment> \<open>\<^verbatim>\<open>np.argmax(a)\<close> with no axis: the first position of the largest component of
      the flattened array\<close>
  "np_argmax a = (case concat a of
       [] \<Rightarrow> Inl (Exn ValueError ''attempt to get argmax of an empty sequence'')
     | x # xs \<Rightarrow> Inr (argmax_loop xs 1 0 x))"

definition np_max :: "real list \<Rightarrow> exn + real" where
  "np_max v = (case v of
       [] \<Rightarrow> Inl (Exn ValueError
               ''zero-size array to reduction operation maximum which has no identity'')
     | x # xs \<Rightarrow> Inr (fold max xs x))"

definition argsort_by :: "(real list \<Rightarrow> nat \<Rightarrow> nat) \<Rightarrow> real list \<Rightarrow> nat list" where
  \<comment> \<open>\<^verbatim>\<open>np.argsort(v)\<close>: the positions of \<open>v\<close> in ascending order of their components.
      numpy's default sort promises no order for equal components: which of them comes
      first differs between array lengths, element types and builds. That order is the
      parameter \<open>rank\<close>: of two positions with equal components, the one of lower rank
      comes first\<close>
  "argsort_by rank v = sort_key (\<lambda>i. (v ! i, rank v i)) [0..<length v]"

definition row0 :: "real list list \<Rightarrow> exn + real list" where
  \<comment> \<open>\<^verbatim>\<open>a[0]\<close>\<close>
  "row0 a = (case a of
       [] \<Rightarrow> Inl (Exn IndexError ''index 0 is out of bounds for axis 0 with size 0'')
     | r # rs \<Rightarrow> Inr r)"

section \<open>The libraries and the files the service reads\<close>

text \<open>
  An image as Pillow holds it: its mode, its size as (width, height), the format of the
  file it was decoded from, and its raster, one list per row, one per pixel, one byte
  per band.
\<close>

record image =
  img_mode :: string
  img_size :: "nat \<times> nat"
  img_format :: "string option"
  img_pixels :: "8 word list list list"

type_synonym tensor = "real list list list list"

text \<open>
  A Keras model is what it was built from and compiled with, and its parameters:
  \<open>None\<close> as long as they are the ones of its initialisation, the content of a
  checkpoint once \<^verbatim>\<open>load_weights\<close> restored one.
\<close>

datatype layer = InputLayer "nat option list" | LambdaHub string | Dense nat string

record model_config =
  layers :: "layer list"
  loss :: string
  optimizer :: string
  metrics :: "string list"

record keras_model =
  config :: model_config
  weights :: "real list option"

text \<open>
  What the service does not decide itself is a parameter of the model: the files of the
  working directory and the outcome of each call into Pillow, numpy, Keras and
  TensorFlow, as they are at the time of one request. Two requests need not see the
  same world: the text of an exception can name the address of an object made for the
  request.
\<close>

record world =
  breeds_json :: "exn + json"
    \<comment> \<open>\<^verbatim>\<open>json.load(open('breeds.json'))\<close>: the value the file holds, or what was raised\<close>
  path_exists :: "string \<Rightarrow> bool"
  keras_build :: "model_config \<Rightarrow> exn option"
    \<comment> \<open>what \<^verbatim>\<open>tf.keras.Sequential(...)\<close> or \<^verbatim>\<open>compile(...)\<close> raises, if anything\<close>
  read_checkpoint :: "model_config \<Rightarrow> string \<Rightarrow> exn + real list"
  keras_predict :: "keras_model \<Rightarrow> tensor \<Rightarrow> exn + real list list"
  keras_input_shape :: "keras_model \<Rightarrow> exn + string"
  keras_output_shape :: "keras_model \<Rightarrow> exn + string"
  keras_count_params :: "keras_model \<Rightarrow> exn + nat"
  gpu_devices :: nat
  tf_version :: string
  image_open :: "8 word list \<Rightarrow> exn + image"
  image_convert :: "image \<Rightarrow> string \<Rightarrow> exn + image"
  image_resize :: "image \<Rightarrow> nat \<times> nat \<Rightarrow> exn + image"
  argsort_rank :: "real list \<Rightarrow> nat \<Rightarrow> nat"
    \<comment> \<open>the order in which this numpy's sort leaves equal components\<close>
  np_repr :: "nat \<Rightarrow> string"
    \<comment> \<open>the text of a numpy integer, which differs between numpy versions\<close>
  dict_slice_error :: exn
    \<comment> \<open>what \<^verbatim>\<open>d[:10]\<close> raises for a dict \<open>d\<close>, which differs between Python versions\<close>

definition np_argsort :: "world \<Rightarrow> real list \<Rightarrow> nat list" where
  "np_argsort w v = argsort_by (argsort_rank w) v"

definition keras_sequential :: "world \<Rightarrow> layer list \<Rightarrow> string \<Rightarrow> string \<Rightarrow> string list \<Rightarrow> exn + keras_model" where
  \<comment> \<open>\<^verbatim>\<open>tf.keras.Sequential(layers)\<close> followed by \<^verbatim>\<open>compile(loss, optimizer, metrics)\<close>\<close>
  "keras_sequential w ls l opt ms =
     (let cfg = \<lparr>layers = ls, loss = l, optimizer = opt, metrics = ms\<rparr>
      in case keras_build w cfg of
           Some e \<Rightarrow> Inl e
         | None \<Rightarrow> Inr \<lparr>config = cfg, weights = None\<rparr>)"

definition keras_load_weights :: "world \<Rightarrow> keras_model \<Rightarrow> string \<Rightarrow> exn + keras_model" where
  \<comment> \<open>\<^verbatim>\<open>model.load_weights(path)\<close> changes the model it is called on\<close>
  "keras_load_weights w m path =
     (case read_checkpoint w (config m) path of
        Inl e \<Rightarrow> Inl e
      | Inr ws \<Rightarrow> Inr (m\<lparr>weights := Some ws\<rparr>))"

section \<open>The globals of main.py\<close>

record state =
  model :: "keras_model option"
  breeds :: json

definition initial_state :: state where
  "initial_state = \<lparr>model = None, breeds = JNull\<rparr>"

definition IMG_SIZE :: nat where
  "IMG_SIZE = 224"

definition MODEL_URL :: string where
  "MODEL_URL = ''https://kaggle.com/models/google/mobilenet-v2/TensorFlow2/100-224-feature-vector/1''"

section \<open>Loading the breeds and the model\<close>

definition load_breeds :: "world \<Rightarrow> exn + json" where
  "load_breeds w = (case breeds_json w of
       Inl (Exn FileNotFoundError m) \<Rightarrow> Inr (JInt (- 1))
     | Inl (Exn k m) \<Rightarrow> Inl (Exn k m)
     | Inr v \<Rightarrow> Inr v)"

definition create_model :: "world \<Rightarrow> state \<Rightarrow> exn + keras_model" where
  \<comment> \<open>\<^verbatim>\<open>create_model\<close> of main.py\<close>
  "create_model w s =
     (let INPUT_SHAPE = [None, Some IMG_SIZE, Some IMG_SIZE, Some 3]
      in case py_len (breeds s) of
           Inl e \<Rightarrow> Inl e
         | Inr OUTPUT_SHAPE \<Rightarrow>
             keras_sequential w
               [InputLayer (py_slice_from 1 INPUT_SHAPE), LambdaHub MODEL_URL,
                Dense OUTPUT_SHAPE ''softmax'']
               ''CategoricalCrossentropy'' ''Adam'' [''accuracy''])"

definition cm_IMG_SIZE :: nat where
  "cm_IMG_SIZE = 224"

definition cm_INPUT_SHAPE :: "nat option list" where
  "cm_INPUT_SHAPE = [None, Some cm_IMG_SIZE, Some cm_IMG_SIZE, Some 3]"

definition cm_OUTPUT_SHAPE :: nat where
  "cm_OUTPUT_SHAPE = 120"

definition cm_MODEL_URL :: string where
  "cm_MODEL_URL = ''https://kaggle.com/models/google/mobilenet-v2/TensorFlow2/100-224-feature-vector/1''"

definition cm_create_model :: "world \<Rightarrow> nat option list \<Rightarrow> nat \<Rightarrow> string \<Rightarrow> exn + keras_model" where
  \<comment> \<open>\<^verbatim>\<open>create_model\<close> of create_model.py, whose module constants are the \<open>cm_\<close> ones\<close>
  "cm_create_model w input_shape output_shape model_url =
     keras_sequential w
       [InputLayer (py_slice_from 1 input_shape), LambdaHub model_url,
        Dense output_shape ''softmax'']
       ''CategoricalCrossentropy'' ''Adam'' [''accuracy'']"

definition load_trained_model :: "world \<Rightarrow> state \<Rightarrow> string \<Rightarrow> keras_model option" where
  "load_trained_model w s weights_path =
     (case create_model w s of
        Inl e \<Rightarrow> None
      | Inr m \<Rightarrow>
          (case keras_load_weights w m weights_path of
             Inl e \<Rightarrow> None
           | Inr m' \<Rightarrow> Some m'))"

fun load_first :: "world \<Rightarrow> state \<Rightarrow> string list \<Rightarrow> bool \<times> state" where
  \<comment> \<open>the \<^verbatim>\<open>for weights_path in weights_paths\<close> loop; the flag is \<^verbatim>\<open>model_loaded\<close>\<close>
  "load_first w s [] = (False, s)"
| "load_first w s (weights_path # rest) =
     (if path_exists w weights_path then
        (let s' = s\<lparr>model := load_trained_model w s weights_path\<rparr>
         in if model s' \<noteq> None then (True, s') else load_first w s' rest)
      else load_first w s rest)"

definition weights_paths :: "string list" where
  "weights_paths = [''20250619-08341750322059-full-dataset-dog-mobilenetv2-cj.weights.h5'']"

definition startup_event :: "world \<Rightarrow> state \<Rightarrow> exn option \<times> state" where
  \<comment> \<open>the exception that ends the startup, if any, and the globals it leaves; what it
      prints, the listing of the directory included, is left out\<close>
  "startup_event w s =
     (case load_breeds w of
        Inl e \<Rightarrow> (Some e, s)
      | Inr b \<Rightarrow>
          (let s1 = s\<lparr>breeds := b\<rparr>
           in case py_len (breeds s1) of
                Inl e \<Rightarrow> (Some e, s1)
              | Inr n \<Rightarrow>
                  (case load_first w s1 weights_paths of
                     (model_loaded, s2) \<Rightarrow>
                       if \<not> model_loaded then
                         (case create_model w s2 of
                            Inl e \<Rightarrow> (Some e, s2)
                          | Inr m \<Rightarrow> (None, s2\<lparr>model := Some m\<rparr>))
                       else (None, s2))))"

section \<open>Preprocessing and decoding\<close>

definition preprocess_image :: "world \<Rightarrow> image \<Rightarrow> exn + tensor" where
  "preprocess_image w img =
     (case (if img_mode img \<noteq> ''RGB'' then image_convert w img ''RGB'' else Inr img) of
        Inl e \<Rightarrow> Inl e
      | Inr image1 \<Rightarrow>
          (case image_resize w image1 (IMG_SIZE, IMG_SIZE) of
             Inl e \<Rightarrow> Inl e
           | Inr image2 \<Rightarrow>
               (let img_array = map (map (map (\<lambda>b. real (unat b) / 255))) (img_pixels image2)
                in Inr [img_array])))"

definition get_pred_label :: "world \<Rightarrow> state \<Rightarrow> real list list \<Rightarrow> exn + json" where
  "get_pred_label w s prediction_probabilities =
     (case np_argmax prediction_probabilities of
        Inl e \<Rightarrow> Inl e
      | Inr i \<Rightarrow> py_getitem (np_repr w) (breeds s) i)"

definition top_entry :: "string \<Rightarrow> real \<Rightarrow> json" where
  "top_entry b c = JObj [(''breed'', JStr b), (''confidence'', JNum c)]"

fun top_loop :: "world \<Rightarrow> state \<Rightarrow> real list \<Rightarrow> nat list \<Rightarrow> json list \<Rightarrow> exn + json list" where
  \<comment> \<open>the \<^verbatim>\<open>for idx in top_indices\<close> loop, appending to \<^verbatim>\<open>predictions\<close>\<close>
  "top_loop w s v [] predictions = Inr predictions"
| "top_loop w s v (idx # rest) predictions =
     (case bind_exn (py_getitem (np_repr w) (breeds s) idx) py_display of
        Inl e \<Rightarrow> Inl e
      | Inr b \<Rightarrow> top_loop w s v rest (predictions @ [top_entry b (v ! idx)]))"

definition get_top_predictions :: "world \<Rightarrow> state \<Rightarrow> real list list \<Rightarrow> int \<Rightarrow> exn + json list" where
  "get_top_predictions w s prediction_probabilities top_k =
     (case row0 prediction_probabilities of
        Inl e \<Rightarrow> Inl e
      | Inr v \<Rightarrow>
          (let top_indices = rev (py_slice_from (- top_k) (np_argsort w v))
           in top_loop w s v top_indices []))"

section \<open>The request handlers\<close>

text \<open>
  A handler returns a JSON body (status 200), raises an \<^verbatim>\<open>HTTPException\<close> with a
  status and a detail, or lets an exception escape, which the framework answers with
  status 500. Each handler is given the globals and returns them with its outcome.
\<close>

datatype http = Response json | HTTPException nat string | Unhandled exn

fun status_code :: "http \<Rightarrow> nat" where
  "status_code (Response body) = 200"
| "status_code (HTTPException code detail) = code"
| "status_code (Unhandled e) = 500"

record upload =
  filename :: "string option"
  content_type :: "string option"
    \<comment> \<open>the \<^verbatim>\<open>Content-Type\<close> header of the uploaded part; the framework gives \<^verbatim>\<open>None\<close>
        for a part that has none\<close>
  file_read :: "exn + 8 word list"
    \<comment> \<open>what \<^verbatim>\<open>await file.read()\<close> gives: the bytes of the body, or what was raised\<close>

definition json_opt_str :: "string option \<Rightarrow> json" where
  "json_opt_str x = (case x of None \<Rightarrow> JNull | Some v \<Rightarrow> JStr v)"

definition read_root :: "state \<Rightarrow> http \<times> state" where
  "read_root s =
     (case (if py_truthy (breeds s) then py_len (breeds s) else Inr 0) of
        Inl e \<Rightarrow> (Unhandled e, s)
      | Inr n \<Rightarrow>
          (Response (JObj
             [(''message'', JStr ''Dog Breed Predictor API with Real ML Model!''),
              (''status'', JStr ''healthy''),
              (''model_loaded'', JBool (model s \<noteq> None)),
              (''total_breeds'', JInt (int n)),
              (''version'', JStr ''2.0.0'')]), s))"

definition health_check :: "world \<Rightarrow> state \<Rightarrow> http \<times> state" where
  "health_check w s =
     (Response (JObj
        [(''status'', JStr ''healthy''),
         (''service'', JStr ''dog-breed-predictor''),
         (''model_status'', JStr (if model s \<noteq> None then ''loaded'' else ''not_loaded'')),
         (''gpu_available'', JBool (0 < gpu_devices w)),
         (''tensorflow_version'', JStr (tf_version w))]), s)"

definition model_info_try :: "world \<Rightarrow> state \<Rightarrow> keras_model \<Rightarrow> exn + json" where
  \<comment> \<open>the \<^verbatim>\<open>try\<close> block of \<^verbatim>\<open>model_info\<close>\<close>
  "model_info_try w s m =
     bind_exn (keras_input_shape w m) (\<lambda>input_shape.
     bind_exn (keras_output_shape w m) (\<lambda>output_shape.
     bind_exn (keras_count_params w m) (\<lambda>total_parameters.
     bind_exn (py_len (breeds s)) (\<lambda>total_breeds.
     bind_exn (py_slice_to (dict_slice_error w) 10 (breeds s)) (\<lambda>first_ten.
     bind_exn (py_iter first_ten) (\<lambda>sample.
     bind_exn (map_exn py_display sample) (\<lambda>sample_breeds.
       Inr (JObj
         [(''model_loaded'', JBool True),
          (''input_shape'', JStr input_shape),
          (''output_shape'', JStr output_shape),
          (''total_parameters'', JInt (int total_parameters)),
          (''total_breeds'', JInt (int total_breeds)),
          (''image_size'', JInt (int IMG_SIZE)),
          (''sample_breeds'', JList (map JStr sample_breeds))]))))))))"

definition model_info :: "world \<Rightarrow> state \<Rightarrow> http \<times> state" where
  "model_info w s =
     (case model s of
        None \<Rightarrow> (HTTPException 503 ''Model not loaded'', s)
      | Some m \<Rightarrow>
          (case model_info_try w s m of
             Inl e \<Rightarrow> (HTTPException 500 (''Error getting model info: '' @ exn_str e), s)
           | Inr body \<Rightarrow> (Response body, s)))"

definition get_breeds :: "state \<Rightarrow> http \<times> state" where
  "get_breeds s =
     (case bind_exn (py_len (breeds s)) (\<lambda>total_breeds.
           bind_exn (py_iter (breeds s)) (\<lambda>bs.
           bind_exn (map_exn py_display bs) (\<lambda>names.
             Inr (JObj
               [(''total_breeds'', JInt (int total_breeds)),
                (''breeds'', JList (map JStr names))])))) of
        Inl e \<Rightarrow> (Unhandled e, s)
      | Inr body \<Rightarrow> (Response body, s))"

definition predict_breed_try :: "world \<Rightarrow> state \<Rightarrow> keras_model \<Rightarrow> upload \<Rightarrow> exn + json" where
  \<comment> \<open>the \<^verbatim>\<open>try\<close> block of \<^verbatim>\<open>predict_breed\<close>\<close>
  "predict_breed_try w s m file =
     bind_exn (file_read file) (\<lambda>image_data.
     bind_exn (image_open w image_data) (\<lambda>img.
     bind_exn (preprocess_image w img) (\<lambda>processed_image.
     bind_exn (keras_predict w m processed_image) (\<lambda>predictions.
     bind_exn (get_pred_label w s predictions) (\<lambda>top_breed.
     bind_exn (row0 predictions) (\<lambda>v.
     bind_exn (np_max v) (\<lambda>confidence.
     bind_exn (get_top_predictions w s predictions 3) (\<lambda>top_3.
     bind_exn (py_display top_breed) (\<lambda>breed.
     bind_exn (py_len (breeds s)) (\<lambda>total_breeds.
       Inr (JObj
         [(''success'', JBool True),
          (''filename'', json_opt_str (filename file)),
          (''image_info'', JObj
             [(''width'', JInt (int (fst (img_size img)))),
              (''height'', JInt (int (snd (img_size img)))),
              (''format'', json_opt_str (img_format img)),
              (''size_kb'', JNum (py_round (real (length image_data) / 1024) 2))]),
          (''prediction'', JObj
             [(''breed'', JStr breed),
              (''confidence'', JNum confidence),
              (''confidence_percentage'', JNum (py_round (confidence * 100) 1))]),
          (''top_3_predictions'', JList top_3),
          (''model_info'', JObj
             [(''model_type'', JStr ''MobileNetV2 + Custom Dense Layer''),
              (''total_breeds'', JInt (int total_breeds)),
              (''image_size_used'', JInt (int IMG_SIZE)),
              (''model_trained'', JBool (1 / 10 < confidence))])])))))))))))"

definition predict_breed :: "world \<Rightarrow> state \<Rightarrow> upload \<Rightarrow> http \<times> state" where
  "predict_breed w s file =
     (case model s of
        None \<Rightarrow> (HTTPException 503 ''Model not loaded'', s)
      | Some m \<Rightarrow>
          (case content_type file of
             None \<Rightarrow>
               (Unhandled (Exn AttributeError
                  (CHR 0x27 # ''NoneType' object has no attribute 'startswith'' @ [CHR 0x27])), s)
           | Some ct \<Rightarrow>
               if \<not> py_startswith ct ''image/'' then
                 (HTTPException 400 ''File must be an image (jpg, png, etc.)'', s)
               else
                 (case predict_breed_try w s m file of
                    Inl e \<Rightarrow> (HTTPException 500 (''Error processing image: '' @ exn_str e), s)
                  | Inr body \<Rightarrow> (Response body, s))))"

subsection \<open>Serving requests\<close>

datatype request = GetRoot | GetHealth | GetModelInfo | GetBreeds | PostPredict upload

fun handle :: "world \<Rightarrow> state \<Rightarrow> request \<Rightarrow> http \<times> state" where
  "handle w s GetRoot = read_root s"
| "handle w s GetHealth = health_check w s"
| "handle w s GetModelInfo = model_info w s"
| "handle w s GetBreeds = get_breeds s"
| "handle w s (PostPredict file) = predict_breed w s file"

fun serve :: "state \<Rightarrow> (world \<times> request) list \<Rightarrow> http list \<times> state" where
  \<comment> \<open>the requests of a run, one after the other, each in the world of its time\<close>
  "serve s [] = ([], s)"
| "serve s ((w, r) # rs) =
     (case handle w s r of
        (out, s') \<Rightarrow> (case serve s' rs of (outs, s'') \<Rightarrow> (out # outs, s'')))"

section \<open>An example world\<close>

text \<open>
  A working directory with a three-breed \<^verbatim>\<open>breeds.json\<close> and no checkpoint; a
  model that answers every image with the same vector; a numpy whose sort leaves equal
  components in the reverse order of their positions and that prints an integer as its
  decimal digits; an image library that decodes one PNG file, of two pixels with an
  alpha band, drops the alpha band to convert to RGB, and fills a resized image with the
  first pixel of the original.
\<close>

fun nat_str :: "nat \<Rightarrow> string" where
  "nat_str n =
     (if n < 10 then [char_of (48 + n)] else nat_str (n div 10) @ [char_of (48 + n mod 10)])"

declare nat_str.simps [simp del]

definition example_png :: "8 word list" where
  "example_png =
     [137, 80, 78, 71, 13, 10, 26, 10, 0, 0, 0, 13, 73, 72, 68, 82, 0, 0, 0, 2, 0, 0,
      0, 1, 8, 6, 0, 0, 0, 244, 34, 127, 138, 0, 0, 0, 17, 73, 68, 65, 84, 120, 218,
      99, 248, 111, 204, 240, 159, 129, 225, 255, 127, 0, 17, 94, 4, 48, 197, 107, 129,
      68, 0, 0, 0, 0, 73, 69, 78, 68, 174, 66, 96, 130]"

definition example_image :: image where
  "example_image =
     \<lparr>img_mode = ''RGBA'', img_size = (2, 1), img_format = Some ''PNG'',
      img_pixels = [[[255, 51, 0, 255], [0, 0, 255, 255]]]\<rparr>"

definition example_world :: world where
  "example_world =
     \<lparr>breeds_json = Inr (JList [JStr ''beagle'', JStr ''pug'', JStr ''siberian_husky'']),
      path_exists = (\<lambda>path. False),
      keras_build = (\<lambda>cfg. None),
      read_checkpoint = (\<lambda>cfg path. Inl (Exn LibraryError ''Unable to open file'')),
      keras_predict = (\<lambda>m t. Inr [[1 / 5, 7 / 10, 1 / 10]]),
      keras_input_shape = (\<lambda>m. Inr ''(None, 224, 224, 3)''),
      keras_output_shape = (\<lambda>m. Inr ''(None, 3)''),
      keras_count_params = (\<lambda>m. Inr 3843),
      gpu_devices = 0,
      tf_version = ''2.15.0'',
      image_open = (\<lambda>data. if data = example_png then Inr example_image
         else Inl (Exn LibraryError
                ''cannot identify image file <_io.BytesIO object at 0x7f3a5c1b2e30>'')),
      image_convert = (\<lambda>img mode. Inr (img\<lparr>img_mode := mode,
                          img_pixels := map (map (take 3)) (img_pixels img)\<rparr>)),
      image_resize = (\<lambda>img sz. Inr (img\<lparr>img_size := sz,
                          img_pixels := replicate (snd sz) (replicate (fst sz)
                                          (take 3 (concat (concat (img_pixels img)) @ [0, 0, 0])))\<rparr>)),
      argsort_rank = (\<lambda>v i. length v - i),
      np_repr = nat_str,
      dict_slice_error = Exn TypeError (''unhashable type: '' @ quoted ''slice'')\<rparr>"

text \<open>
  Variations: the same world at a later request, whose buffer lies at another address;
  a directory that holds the checkpoint while no model can be built; a
  \<^verbatim>\<open>breeds.json\<close> that holds an object; a numpy whose sort keeps equal components
  in the order of their positions; and two uploads, the PNG file and its first four
  bytes.
\<close>

definition later_world :: world where
  "later_world =
     example_world\<lparr>image_open := (\<lambda>data. if data = example_png then Inr example_image
         else Inl (Exn LibraryError
                ''cannot identify image file <_io.BytesIO object at 0x7f3a5c1b2f70>''))\<rparr>"

definition offline_world :: world where
  "offline_world =
     example_world\<lparr>path_exists := (\<lambda>path. True),
                   keras_build := (\<lambda>cfg. Some (Exn LibraryError ''hub download failed''))\<rparr>"

definition dict_world :: world where
  "dict_world =
     example_world\<lparr>breeds_json := Inr (JObj [(''pug'', JInt 0), (''beagle'', JInt 1)])\<rparr>"

definition stable_world :: world where
  "stable_world = example_world\<lparr>argsort_rank := (\<lambda>v i. i)\<rparr>"

definition example_upload :: upload where
  "example_upload =
     \<lparr>filename = Some ''dog.png'', content_type = Some ''image/png'',
      file_read = Inr example_png\<rparr>"

definition truncated_upload :: upload where
  "truncated_upload =
     \<lparr>filename = Some ''dog.png'', content_type = Some ''image/png'',
      file_read = Inr [137, 80, 78, 71]\<rparr>"

section \<open>Specification predicates\<close>

definition is_first_max :: "real list \<Rightarrow> nat \<Rightarrow> bool" where
  \<comment> \<open>position \<open>r\<close> holds the largest component of \<open>v\<close>, and no earlier position does\<close>
  "is_first_max v r =
     (r < length v \<and> (\<forall>j<length v. v ! j \<le> v ! r) \<and> (\<forall>j<r. v ! j < v ! r))"

definition has_shape :: "tensor \<Rightarrow> nat \<times> nat \<times> nat \<times> nat \<Rightarrow> bool" where
  \<comment> \<open>the array is rectangular, of these lengths along its four axes\<close>
  "has_shape t d = (case d of (n, h, w, c) \<Rightarrow>
     length t = n \<and> (\<forall>a\<in>set t. length a = h
       \<and> (\<forall>row\<in>set a. length row = w \<and> (\<forall>px\<in>set row. length px = c))))"

definition rgb_raster :: "image \<Rightarrow> nat \<times> nat \<Rightarrow> bool" where
  \<comment> \<open>the raster has the rows and columns of the size (width, height), three bands each\<close>
  "rgb_raster img sz =
     (length (img_pixels img) = snd sz
      \<and> (\<forall>row\<in>set (img_pixels img). length row = fst sz \<and> (\<forall>px\<in>set row. length px = 3)))"

definition pillow_contract :: "world \<Rightarrow> bool" where
  \<comment> \<open>what Pillow documents: \<^verbatim>\<open>convert('RGB')\<close> returns an image of mode RGB, and
      \<^verbatim>\<open>resize(size)\<close> of an RGB image returns a raster of that size, three bands each\<close>
  "pillow_contract w =
     ((\<forall>img img'. image_convert w img ''RGB'' = Inr img' \<longrightarrow> img_mode img' = ''RGB'')
      \<and> (\<forall>img sz img'. img_mode img = ''RGB'' \<and> image_resize w img sz = Inr img' \<longrightarrow>
            rgb_raster img' sz))"

definition agree :: "exn + 'a \<Rightarrow> exn + 'a \<Rightarrow> bool" where
  \<comment> \<open>two outcomes of a call: the same value, or two exceptions, whatever their texts\<close>
  "agree r r' = (r = r' \<or> (isl r \<and> isl r'))"

definition same_results :: "world \<Rightarrow> world \<Rightarrow> bool" where
  \<comment> \<open>the libraries at two requests: the same numpy, and every call that Pillow or Keras
      answers at one request it answers alike at the other\<close>
  "same_results w w' =
     ((\<forall>d. agree (image_open w d) (image_open w' d))
      \<and> (\<forall>img m. agree (image_convert w img m) (image_convert w' img m))
      \<and> (\<forall>img sz. agree (image_resize w img sz) (image_resize w' img sz))
      \<and> (\<forall>m t. agree (keras_predict w m t) (keras_predict w' m t))
      \<and> argsort_rank w = argsort_rank w')"

section \<open>Facts about the array operations and the handlers\<close>

lemma argmax_loop_inv:
  "is_first_max pre best \<Longrightarrow> pre ! best = mp \<Longrightarrow>
   is_first_max (pre @ xs) (argmax_loop xs (length pre) best mp)"
proof (induction xs arbitrary: pre best mp)
  case Nil
  then show ?case by simp
next
  case (Cons x xs)
  show ?case
  proof (cases "mp < x")
    case True
    have "\<forall>j<length pre. pre ! j \<le> mp"
      using Cons.prems by (simp add: is_first_max_def)
    then have "\<forall>j<length pre. pre ! j < x"
      using True by (meson le_less_trans)
    then have "is_first_max (pre @ [x]) (length pre)"
      by (auto simp: is_first_max_def nth_append less_Suc_eq less_imp_le)
    from Cons.IH[OF this, of x] True show ?thesis by simp
  next
    case False
    have "is_first_max (pre @ [x]) best"
      using Cons.prems False by (auto simp: is_first_max_def nth_append less_Suc_eq)
    from Cons.IH[OF this, of mp] Cons.prems False show ?thesis by (simp add: nth_append is_first_max_def)
  qed
qed

lemma np_argmax_row:
  assumes "p \<noteq> []"
  shows "\<exists>i. np_argmax [p] = Inr i \<and> is_first_max p i"
proof -
  obtain x xs where p: "p = x # xs" using assms by (cases p) auto
  have "is_first_max [x] 0" by (simp add: is_first_max_def)
  from argmax_loop_inv[OF this, of x xs] have "is_first_max p (argmax_loop xs 1 0 x)"
    by (simp add: p)
  then show ?thesis by (simp add: np_argmax_def p)
qed

lemma first_max_Max: "is_first_max p i \<Longrightarrow> p ! i = Max (set p)"
  unfolding is_first_max_def
  by (intro Max_eqI[symmetric]) (auto simp: in_set_conv_nth)


lemma sorted_fst_of_pairs:
  fixes f :: "'a \<Rightarrow> real" and g :: "'a \<Rightarrow> nat"
  assumes "sorted (map (\<lambda>i. (f i, g i)) xs)"
  shows "sorted (map f xs)"
proof -
  have "sorted_wrt (\<lambda>x y. (f x, g x) \<le> (f y, g y)) xs"
    using assms by (simp add: sorted_map)
  then have "sorted_wrt (\<lambda>x y. f x \<le> f y) xs"
    by (rule sorted_wrt_mono_rel[rotated]) (auto simp: less_eq_prod_def)
  then show ?thesis by (simp add: sorted_map)
qed

lemma np_argsort_props:
  "length (np_argsort w v) = length v"
  "set (np_argsort w v) = {0..<length v}"
  "distinct (np_argsort w v)"
  "sorted (map (\<lambda>i. v ! i) (np_argsort w v))"
proof -
  show "length (np_argsort w v) = length v" "set (np_argsort w v) = {0..<length v}"
    "distinct (np_argsort w v)"
    by (simp_all add: np_argsort_def argsort_by_def)
  have "sorted (map (\<lambda>i. (v ! i, argsort_rank w v i)) (np_argsort w v))"
    unfolding np_argsort_def argsort_by_def by (rule sorted_sort_key)
  then show "sorted (map (\<lambda>i. v ! i) (np_argsort w v))" by (rule sorted_fst_of_pairs)
qed

lemma bind_exn_simps:
  "bind_exn (Inl e) f = Inl e"
  "bind_exn (Inr x) f = f x"
  by (simp_all add: bind_exn_def)

lemma top_loop_ok:
  "breeds s = JList (map JStr bs) \<Longrightarrow> \<forall>i\<in>set idxs. i < length bs \<Longrightarrow>
   top_loop w s v idxs acc =
     Inr (acc @ map (\<lambda>i. top_entry (display_name (bs ! i)) (v ! i)) idxs)"
  by (induction idxs arbitrary: acc) (simp_all add: py_getitem_def py_display_def bind_exn_simps)




lemma set_py_slice_from: "set (py_slice_from i xs) \<subseteq> set xs"
  by (simp add: py_slice_from_def Let_def set_drop_subset)


lemma map_exn_display: "map_exn py_display (map JStr bs) = Inr (map display_name bs)"
  by (induction bs) (simp_all add: py_display_def bind_exn_simps)

lemma handler_frames:
  "snd (read_root s) = s"
  "snd (health_check w s) = s"
  "snd (model_info w s) = s"
  "snd (get_breeds s) = s"
  "snd (predict_breed w s file) = s"
  by (simp_all add: read_root_def health_check_def model_info_def get_breeds_def
        predict_breed_def split: sum.splits option.splits)

lemma handle_frame: "snd (handle w s r) = s"
  by (cases r) (simp_all add: handler_frames)

lemma serve_frame: "snd (serve s wrs) = s"
  by (induction wrs) (auto simp: case_prod_beta handle_frame)

lemma serve_responses:
  "fst (serve s wrs) = map (\<lambda>wr. fst (handle (fst wr) s (snd wr))) wrs"
  by (induction wrs) (auto simp: case_prod_beta handle_frame)

subsection \<open>The startup and the handlers\<close>

lemma create_model_breeds_only:
  "breeds s = breeds s' \<Longrightarrow> create_model w s = create_model w s'"
  by (simp add: create_model_def)

lemma load_trained_model_breeds_only:
  "breeds s = breeds s' \<Longrightarrow> load_trained_model w s path = load_trained_model w s' path"
  by (simp add: load_trained_model_def create_model_breeds_only[of s s'])

lemma load_first_breeds: "breeds (snd (load_first w s ps)) = breeds s"
  by (induction ps arbitrary: s) (simp_all add: Let_def)

lemma load_first_none:
  assumes "\<forall>p\<in>set ps. \<not> path_exists w p \<or> load_trained_model w s p = None"
  shows "fst (load_first w s ps) = False"
  using assms
proof (induction ps arbitrary: s)
  case Nil
  show ?case by simp
next
  case (Cons p ps)
  show ?case
  proof (cases "path_exists w p")
    case False
    then show ?thesis using Cons by simp
  next
    case True
    then have none: "load_trained_model w s p = None" using Cons.prems by simp
    let ?s' = "s\<lparr>model := None\<rparr>"
    have "\<forall>q\<in>set ps. \<not> path_exists w q \<or> load_trained_model w ?s' q = None"
      using Cons.prems load_trained_model_breeds_only[of ?s' s w] by simp
    from Cons.IH[OF this] True none show ?thesis by (simp add: Let_def)
  qed
qed

lemma startup_fallback:
  assumes lb: "load_breeds w = Inr v" and len: "py_len v = Inr n"
    and nl: "\<forall>p\<in>set weights_paths. \<not> path_exists w p
               \<or> load_trained_model w (s\<lparr>breeds := v\<rparr>) p = None"
  shows "fst (startup_event w s) =
           (case create_model w (s\<lparr>breeds := v\<rparr>) of Inl e \<Rightarrow> Some e | Inr m \<Rightarrow> None)"
    and "create_model w (s\<lparr>breeds := v\<rparr>) = Inr m \<Longrightarrow>
           model (snd (startup_event w s)) = Some m \<and> breeds (snd (startup_event w s)) = v"
proof -
  let ?s1 = "s\<lparr>breeds := v\<rparr>"
  obtain ml s2 where lf: "load_first w ?s1 weights_paths = (ml, s2)"
    by (cases "load_first w ?s1 weights_paths")
  have ml: "ml = False" using load_first_none[OF nl] lf by simp
  have b2: "breeds s2 = v" using load_first_breeds[of w ?s1 weights_paths] lf by simp
  have cm: "create_model w s2 = create_model w ?s1"
    by (rule create_model_breeds_only) (simp add: b2)
  show "fst (startup_event w s) =
           (case create_model w ?s1 of Inl e \<Rightarrow> Some e | Inr m \<Rightarrow> None)"
    by (simp add: startup_event_def lb len lf ml cm split: sum.splits)
  show "model (snd (startup_event w s)) = Some m \<and> breeds (snd (startup_event w s)) = v"
    if "create_model w ?s1 = Inr m"
    using that by (simp add: startup_event_def lb len lf ml cm b2)
qed

lemma create_model_untrained: "create_model w s = Inr m \<Longrightarrow> weights m = None"
  by (auto simp: create_model_def keras_sequential_def Let_def split: sum.splits option.splits)

lemma load_trained_model_cases:
  "load_trained_model w s path =
     (case create_model w s of
        Inl e \<Rightarrow> None
      | Inr m \<Rightarrow> (case read_checkpoint w (config m) path of
                    Inl e \<Rightarrow> None
                  | Inr ws \<Rightarrow> Some (m\<lparr>weights := Some ws\<rparr>)))"
  by (simp add: load_trained_model_def keras_load_weights_def split: sum.splits)

lemma load_breeds_list:
  "load_breeds w = Inr (JList xs) \<longleftrightarrow> breeds_json w = Inr (JList xs)"
  by (auto simp: load_breeds_def split: sum.splits exn.splits exn_kind.splits)

lemma load_breeds_parsed:
  "breeds_json w = Inr v \<Longrightarrow> load_breeds w = Inr v"
  by (simp add: load_breeds_def)

lemma load_breeds_cases:
  "load_breeds w = Inr v \<Longrightarrow>
     breeds_json w = Inr v \<or> (v = JInt (- 1) \<and> (\<exists>m. breeds_json w = Inl (Exn FileNotFoundError m)))"
  by (auto simp: load_breeds_def split: sum.splits exn.splits exn_kind.splits)

lemma startup_breeds:
  "breeds (snd (startup_event w s)) = (case load_breeds w of Inl e \<Rightarrow> breeds s | Inr b \<Rightarrow> b)"
proof (cases "load_breeds w")
  case (Inl e)
  then show ?thesis by (simp add: startup_event_def)
next
  case (Inr b)
  obtain ml s2 where lf: "load_first w (s\<lparr>breeds := b\<rparr>) weights_paths = (ml, s2)"
    by (cases "load_first w (s\<lparr>breeds := b\<rparr>) weights_paths")
  have "breeds s2 = b" using load_first_breeds[of w "s\<lparr>breeds := b\<rparr>" weights_paths] lf by simp
  then show ?thesis using Inr lf
    by (simp add: startup_event_def Let_def split: sum.splits)
qed

lemma startup_completes_len:
  assumes "fst (startup_event w s) = None"
  shows "\<exists>v n. load_breeds w = Inr v \<and> py_len v = Inr n"
proof (cases "load_breeds w")
  case (Inl e)
  then show ?thesis using assms by (simp add: startup_event_def)
next
  case (Inr b)
  then show ?thesis using assms
    by (cases "py_len b") (simp_all add: startup_event_def)
qed

lemma unit_interval_scaled:
  fixes x :: real
  shows "0 \<le> x \<Longrightarrow> x \<le> 255 \<Longrightarrow> 0 \<le> x / 255 \<and> x / 255 \<le> 1"
  by simp

lemma unit_interval_byte:
  fixes b :: "8 word"
  shows "0 \<le> real (unat b) / 255 \<and> real (unat b) / 255 \<le> 1"
proof -
  have "unat b < 2 ^ LENGTH(8)" by (rule unsigned_less)
  then have "unat b \<le> 255" by simp
  then have "real (unat b) \<le> real 255" by (rule iffD2[OF of_nat_le_iff])
  then have le: "real (unat b) \<le> 255" by (simp only: of_nat_numeral)
  have nn: "0 \<le> real (unat b)" by (rule of_nat_0_le_iff)
  show ?thesis by (rule unit_interval_scaled[OF nn le])
qed

lemma preprocess_image_Inr:
  assumes "preprocess_image w img = Inr t"
  shows "\<exists>img1 img2.
           (if img_mode img \<noteq> ''RGB'' then image_convert w img ''RGB'' else Inr img) = Inr img1
         \<and> image_resize w img1 (224, 224) = Inr img2
         \<and> t = [map (map (map (\<lambda>b. real (unat b) / 255))) (img_pixels img2)]"
  using assms
  by (auto simp: preprocess_image_def IMG_SIZE_def Let_def split: sum.splits if_splits)



lemma predict_breed_gates:
  "model s = None \<Longrightarrow> predict_breed w s file = (HTTPException 503 ''Model not loaded'', s)"
  "model s = Some m \<Longrightarrow> content_type file = Some ct \<Longrightarrow> \<not> py_startswith ct ''image/'' \<Longrightarrow>
     predict_breed w s file = (HTTPException 400 ''File must be an image (jpg, png, etc.)'', s)"
  "model s = Some m \<Longrightarrow> content_type file = Some ct \<Longrightarrow> py_startswith ct ''image/'' \<Longrightarrow>
     predict_breed_try w s m file = Inl e \<Longrightarrow>
     predict_breed w s file = (HTTPException 500 (''Error processing image: '' @ exn_str e), s)"
  "model s = Some m \<Longrightarrow> content_type file = Some ct \<Longrightarrow> py_startswith ct ''image/'' \<Longrightarrow>
     predict_breed_try w s m file = Inr body \<Longrightarrow> predict_breed w s file = (Response body, s)"
  "model s = Some m \<Longrightarrow> content_type file = None \<Longrightarrow>
     status_code (fst (predict_breed w s file)) = 500"
  by (simp_all add: predict_breed_def)

lemma example_startup:
  "startup_event example_world initial_state =
     (None, \<lparr>model = Some \<lparr>config = \<lparr>layers =
            [InputLayer [Some 224, Some 224, Some 3],
             LambdaHub MODEL_URL, Dense 3 ''softmax''],
            loss = ''CategoricalCrossentropy'', optimizer = ''Adam'',
            metrics = [''accuracy'']\<rparr>, weights = None\<rparr>,
       breeds = JList [JStr ''beagle'', JStr ''pug'', JStr ''siberian_husky'']\<rparr>)"
  by (simp add: example_world_def initial_state_def startup_event_def load_breeds_def py_len_def
        weights_paths_def create_model_def keras_sequential_def Let_def IMG_SIZE_def
        py_slice_from_def)

subsection \<open>Outcomes that agree\<close>

lemma agree_refl: "agree r r"
  by (simp add: agree_def)

lemma agree_Inl: "agree r r' \<Longrightarrow> r = Inl e \<Longrightarrow> isl r'"
  by (cases r') (simp_all add: agree_def)

lemma agree_Inr: "agree r r' \<Longrightarrow> r = Inr x \<Longrightarrow> r' = Inr x"
  by (cases r') (auto simp: agree_def)

lemma agree_bind:
  assumes "agree r r'" and "\<And>x. agree (f x) (f' x)"
  shows "agree (bind_exn r f) (bind_exn r' f')"
proof (cases r)
  case (Inl e)
  then have "isl r'" by (rule agree_Inl[OF assms(1)])
  then show ?thesis using Inl by (cases r') (simp_all add: agree_def bind_exn_simps)
next
  case (Inr x)
  then have "r' = Inr x" by (rule agree_Inr[OF assms(1)])
  then show ?thesis using Inr assms(2) by (simp add: bind_exn_simps)
qed

lemma agree_preprocess:
  assumes "same_results w w'"
  shows "agree (preprocess_image w img) (preprocess_image w' img)"
proof -
  have c: "agree (image_convert w img ''RGB'') (image_convert w' img ''RGB'')"
    and r: "\<And>i. agree (image_resize w i (IMG_SIZE, IMG_SIZE)) (image_resize w' i (IMG_SIZE, IMG_SIZE))"
    using assms by (simp_all add: same_results_def)
  have pre: "preprocess_image u img =
      bind_exn (if img_mode img \<noteq> ''RGB'' then image_convert u img ''RGB'' else Inr img) (\<lambda>image1.
      bind_exn (image_resize u image1 (IMG_SIZE, IMG_SIZE)) (\<lambda>image2.
        Inr [map (map (map (\<lambda>b. real (unat b) / 255))) (img_pixels image2)]))" for u
    by (simp add: preprocess_image_def bind_exn_def Let_def split: sum.splits)
  show ?thesis
    unfolding pre
    by (intro agree_bind r agree_refl) (simp add: c agree_refl)
qed

lemma agree_getitem: "agree (py_getitem r v i) (py_getitem r' v i)"
  by (cases v) (simp_all add: py_getitem_def agree_def)

lemma agree_top_loop:
  "agree (top_loop w s v idxs acc) (top_loop w' s v idxs acc)"
proof (induction idxs arbitrary: acc)
  case Nil
  show ?case by (simp add: agree_refl)
next
  case (Cons i idxs)
  have g: "agree (bind_exn (py_getitem (np_repr w) (breeds s) i) py_display)
                 (bind_exn (py_getitem (np_repr w') (breeds s) i) py_display)"
    by (intro agree_bind agree_getitem agree_refl)
  show ?case
  proof (cases "bind_exn (py_getitem (np_repr w) (breeds s) i) py_display")
    case (Inl e)
    then have "isl (bind_exn (py_getitem (np_repr w') (breeds s) i) py_display)"
      by (rule agree_Inl[OF g])
    then show ?thesis using Inl
      by (cases "bind_exn (py_getitem (np_repr w') (breeds s) i) py_display")
         (simp_all add: agree_def)
  next
    case (Inr b)
    then have "bind_exn (py_getitem (np_repr w') (breeds s) i) py_display = Inr b"
      by (rule agree_Inr[OF g])
    then show ?thesis using Inr Cons.IH by simp
  qed
qed

lemma agree_decoders:
  assumes "same_results w w'"
  shows "agree (get_top_predictions w s preds k) (get_top_predictions w' s preds k)"
    and "agree (get_pred_label w s preds) (get_pred_label w' s preds)"
proof -
  have "np_argsort w v = np_argsort w' v" for v
    using assms by (simp add: same_results_def np_argsort_def)
  then show "agree (get_top_predictions w s preds k) (get_top_predictions w' s preds k)"
    by (cases "row0 preds") (simp_all add: get_top_predictions_def agree_refl agree_top_loop)
  show "agree (get_pred_label w s preds) (get_pred_label w' s preds)"
    by (cases "np_argmax preds") (simp_all add: get_pred_label_def agree_refl agree_getitem)
qed

lemma agree_predict_try:
  assumes "same_results w w'"
  shows "agree (predict_breed_try w s m file) (predict_breed_try w' s m file)"
proof -
  have o: "\<And>d. agree (image_open w d) (image_open w' d)"
    and k: "\<And>t. agree (keras_predict w m t) (keras_predict w' m t)"
    using assms by (simp_all add: same_results_def)
  show ?thesis
    unfolding predict_breed_try_def
    by (intro agree_bind agree_refl o k agree_preprocess[OF assms] agree_decoders[OF assms])
qed

lemma predict_responses_agree:
  assumes "same_results w w'"
  shows "fst (predict_breed w s file) = fst (predict_breed w' s file)
       \<or> (\<exists>d d'. fst (predict_breed w s file) = HTTPException 500 d
                \<and> fst (predict_breed w' s file) = HTTPException 500 d')"
proof (cases "model s")
  case None
  then show ?thesis by (simp add: predict_breed_def)
next
  case (Some m)
  show ?thesis
  proof (cases "content_type file")
    case None
    then show ?thesis using Some by (simp add: predict_breed_def)
  next
    case (Some ct)
    show ?thesis
    proof (cases "py_startswith ct ''image/''")
      case False
      then show ?thesis using Some \<open>model s = Some m\<close> by (simp add: predict_breed_def)
    next
      case True
      from agree_predict_try[OF assms, of s m "file"]
      show ?thesis using True Some \<open>model s = Some m\<close>
        by (auto simp: predict_breed_def agree_def isl_def split: sum.splits)
    qed
  qed
qed

section \<open>Claims\<close>

text \<open>
  C1. For a probability vector \<open>p\<close> with one component per breed, \<open>get_pred_label\<close>
  returns the breed at the position of the largest component of \<open>p\<close> (the first such
  position), and the entries of \<open>get_top_predictions\<close> pair the breed at a position with
  the component of \<open>p\<close> at that same position: the position in the output vector is the
  position in the breeds list, in both decoders.
\<close>

theorem get_pred_label_is_argmax:
  assumes "breeds s = JList (map JStr bs)" and "p \<noteq> []" and "length p = length bs"
  shows "\<exists>i<length p. p ! i = Max (set p) \<and> (\<forall>j<i. p ! j < p ! i)
            \<and> get_pred_label w s [p] = Inr (JStr (bs ! i))
            \<and> (\<exists>idxs. set idxs \<subseteq> {0..<length p}
                  \<and> get_top_predictions w s [p] top_k =
                      Inr (map (\<lambda>k. top_entry (display_name (bs ! k)) (p ! k)) idxs))"
proof -
  obtain i where i: "np_argmax [p] = Inr i" "is_first_max p i"
    using np_argmax_row[OF assms(2)] by blast
  have "i < length p" "\<forall>j<i. p ! j < p ! i"
    using i(2) by (simp_all add: is_first_max_def)
  moreover have "p ! i = Max (set p)" by (rule first_max_Max[OF i(2)])
  moreover have "get_pred_label w s [p] = Inr (JStr (bs ! i))"
    using i(1) \<open>i < length p\<close> assms by (simp add: get_pred_label_def py_getitem_def)
  moreover have "\<exists>idxs. set idxs \<subseteq> {0..<length p}
        \<and> get_top_predictions w s [p] top_k =
            Inr (map (\<lambda>k. top_entry (display_name (bs ! k)) (p ! k)) idxs)"
  proof -
    let ?idxs = "rev (py_slice_from (- top_k) (np_argsort w p))"
    have sub: "set ?idxs \<subseteq> {0..<length p}"
      using set_py_slice_from[of "- top_k" "np_argsort w p"] by (simp add: np_argsort_props(2))
    then have "\<forall>k\<in>set ?idxs. k < length bs" using assms(3) by auto
    from top_loop_ok[OF assms(1) this, of w p "[]"]
    have "get_top_predictions w s [p] top_k =
            Inr (map (\<lambda>k. top_entry (display_name (bs ! k)) (p ! k)) ?idxs)"
      by (simp add: get_top_predictions_def row0_def)
    with sub show ?thesis by blast
  qed
  ultimately show ?thesis by blast
qed

theorem get_pred_label_is_argmax_witness:
  "breeds \<lparr>model = None, breeds = JList (map JStr [''beagle'', ''pug'', ''husky''])\<rparr>
     = JList (map JStr [''beagle'', ''pug'', ''husky''])
   \<and> [1 / 5, 7 / 10, 1 / 10 :: real] \<noteq> []
   \<and> length [1 / 5, 7 / 10, 1 / 10 :: real] = length [''beagle'', ''pug'', ''husky'']
   \<and> get_pred_label example_world
        \<lparr>model = None, breeds = JList (map JStr [''beagle'', ''pug'', ''husky''])\<rparr>
        [[1 / 5, 7 / 10, 1 / 10]] = Inr (JStr ''pug'')"
proof -
  let ?s = "\<lparr>model = None, breeds = JList (map JStr [''beagle'', ''pug'', ''husky''])\<rparr>"
  let ?p = "[1 / 5, 7 / 10, 1 / 10 :: real]"
  have h1: "breeds ?s = JList (map JStr [''beagle'', ''pug'', ''husky''])" by simp
  have h2: "?p \<noteq> []" by simp
  have h3: "length ?p = length [''beagle'', ''pug'', ''husky'']" by simp
  from get_pred_label_is_argmax[OF h1 h2 h3, of example_world 3]
  obtain i where i: "i < length ?p" "?p ! i = Max (set ?p)"
    "get_pred_label example_world ?s [?p] = Inr (JStr ([''beagle'', ''pug'', ''husky''] ! i))"
    by blast
  have "i = 0 \<or> i = 1 \<or> i = 2" using i(1) by auto
  moreover have "Max (set ?p) = 7 / 10" by simp
  ultimately have "i = 1" using i(2) by auto
  with i(3) h1 h2 h3 show ?thesis by simp
qed

text \<open>
  C2. Under Pillow's contract, what \<open>preprocess_image\<close> returns is the raster of the
  image that \<open>resize\<close> returned for the size (224, 224), after the conversion to RGB if
  the mode asked for one, each byte divided by 255 and the whole wrapped in a batch of
  one: its shape is (1, 224, 224, 3) and each component lies between 0 and 1. It
  returns (rather than raises) exactly when the conversion and the resizing do.
  (Components are the exact quotients here; in the code they are their float32
  roundings, which stay between 0 and 1.)
\<close>

theorem preprocess_image_shape_and_range:
  assumes "pillow_contract w"
  shows "(\<forall>t. preprocess_image w img = Inr t \<longrightarrow>
            (\<exists>img1 img2.
               (if img_mode img \<noteq> ''RGB'' then image_convert w img ''RGB'' else Inr img) = Inr img1
               \<and> image_resize w img1 (224, 224) = Inr img2
               \<and> t = [map (map (map (\<lambda>b. real (unat b) / 255))) (img_pixels img2)])
          \<and> has_shape t (1, 224, 224, 3)
          \<and> (\<forall>a\<in>set t. \<forall>row\<in>set a. \<forall>px\<in>set row. \<forall>c\<in>set px.
                0 \<le> c \<and> c \<le> 1 \<and> (\<exists>b::8 word. c = real (unat b) / 255)))
       \<and> (\<forall>img1 img2.
            (if img_mode img \<noteq> ''RGB'' then image_convert w img ''RGB'' else Inr img) = Inr img1
            \<and> image_resize w img1 (224, 224) = Inr img2 \<longrightarrow>
            preprocess_image w img
              = Inr [map (map (map (\<lambda>b. real (unat b) / 255))) (img_pixels img2)])
       \<and> ((\<exists>t. preprocess_image w img = Inr t) \<longleftrightarrow>
            (\<exists>img1 img2.
               (if img_mode img \<noteq> ''RGB'' then image_convert w img ''RGB'' else Inr img) = Inr img1
               \<and> image_resize w img1 (224, 224) = Inr img2))"
proof (intro conjI allI impI)
  fix t
  assume t: "preprocess_image w img = Inr t"
  from preprocess_image_Inr[OF t] obtain img1 img2 where
    c: "(if img_mode img \<noteq> ''RGB'' then image_convert w img ''RGB'' else Inr img) = Inr img1"
    and r: "image_resize w img1 (224, 224) = Inr img2"
    and tt: "t = [map (map (map (\<lambda>b. real (unat b) / 255))) (img_pixels img2)]"
    by blast
  show "\<exists>img1 img2.
               (if img_mode img \<noteq> ''RGB'' then image_convert w img ''RGB'' else Inr img) = Inr img1
               \<and> image_resize w img1 (224, 224) = Inr img2
               \<and> t = [map (map (map (\<lambda>b. real (unat b) / 255))) (img_pixels img2)]"
    using c r tt by blast
  have m1: "img_mode img1 = ''RGB''"
    using c assms by (auto simp: pillow_contract_def split: if_splits)
  have rr: "rgb_raster img2 (224, 224)"
    using assms m1 r unfolding pillow_contract_def by blast
  show "has_shape t (1, 224, 224, 3)"
    using rr by (auto simp: has_shape_def rgb_raster_def tt)
  show "\<forall>a\<in>set t. \<forall>row\<in>set a. \<forall>px\<in>set row. \<forall>c\<in>set px.
                0 \<le> c \<and> c \<le> 1 \<and> (\<exists>b::8 word. c = real (unat b) / 255)"
    using unit_interval_byte by (auto simp: tt)
next
  fix img1 img2
  assume "(if img_mode img \<noteq> ''RGB'' then image_convert w img ''RGB'' else Inr img) = Inr img1
            \<and> image_resize w img1 (224, 224) = Inr img2"
  then show "preprocess_image w img
              = Inr [map (map (map (\<lambda>b. real (unat b) / 255))) (img_pixels img2)]"
    by (auto simp: preprocess_image_def IMG_SIZE_def Let_def split: if_splits)
next
  show "(\<exists>t. preprocess_image w img = Inr t) \<longleftrightarrow>
            (\<exists>img1 img2.
               (if img_mode img \<noteq> ''RGB'' then image_convert w img ''RGB'' else Inr img) = Inr img1
               \<and> image_resize w img1 (224, 224) = Inr img2)"
    by (auto simp: preprocess_image_def IMG_SIZE_def Let_def split: sum.splits if_splits)
qed

theorem preprocess_image_witness:
  "pillow_contract example_world
   \<and> image_convert example_world example_image ''RGB''
       = Inr \<lparr>img_mode = ''RGB'', img_size = (2, 1), img_format = Some ''PNG'',
               img_pixels = [[[255, 51, 0], [0, 0, 255]]]\<rparr>
   \<and> image_resize example_world
         \<lparr>img_mode = ''RGB'', img_size = (2, 1), img_format = Some ''PNG'',
            img_pixels = [[[255, 51, 0], [0, 0, 255]]]\<rparr> (224, 224)
       = Inr \<lparr>img_mode = ''RGB'', img_size = (224, 224), img_format = Some ''PNG'',
               img_pixels = replicate 224 (replicate 224 [255, 51, 0])\<rparr>
   \<and> preprocess_image example_world example_image
       = Inr [replicate 224 (replicate 224 [1, 1 / 5, 0])]
   \<and> has_shape [replicate 224 (replicate 224 [1, 1 / 5, 0])] (1, 224, 224, 3)"
proof -
  let ?img1 = "\<lparr>img_mode = ''RGB'', img_size = (2, 1), img_format = Some ''PNG'',
               img_pixels = [[[255, 51, 0], [0, 0, 255 :: 8 word]]]\<rparr>"
  let ?img2 = "\<lparr>img_mode = ''RGB'', img_size = (224, 224), img_format = Some ''PNG'',
               img_pixels = replicate 224 (replicate 224 [255, 51, 0 :: 8 word])\<rparr>"
  have h: "pillow_contract example_world"
    by (auto simp: pillow_contract_def example_world_def rgb_raster_def)
  have c: "image_convert example_world example_image ''RGB'' = Inr ?img1"
    by (simp add: example_world_def example_image_def)
  have r: "image_resize example_world ?img1 (224, 224) = Inr ?img2"
    by (simp add: example_world_def)
  have m: "img_mode example_image \<noteq> ''RGB''" by (simp add: example_image_def)
  note T = preprocess_image_shape_and_range[OF h, of example_image]
  have cc: "(if img_mode example_image \<noteq> ''RGB''
             then image_convert example_world example_image ''RGB'' else Inr example_image)
            = Inr ?img1"
    using c m by simp
  have e: "preprocess_image example_world example_image
        = Inr [map (map (map (\<lambda>b. real (unat b) / 255))) (img_pixels ?img2)]"
    by (rule T[THEN conjunct2, THEN conjunct1, rule_format, of ?img1 ?img2]) (simp only: cc r)
  have q: "map (map (map (\<lambda>b. real (unat b) / 255))) (img_pixels ?img2)
             = replicate 224 (replicate 224 [1, 1 / 5, 0])"
    by simp
  have e': "preprocess_image example_world example_image
        = Inr [replicate 224 (replicate 224 [1, 1 / 5, 0])]"
    using e unfolding q .
  have sh: "has_shape [replicate 224 (replicate 224 [1, 1 / 5, 0])] (1, 224, 224, 3)"
    by (rule T[THEN conjunct1, rule_format, OF e', THEN conjunct2, THEN conjunct1])
  show ?thesis
    by (intro conjI h c r e' sh)
qed

text \<open>
  C3. No request handler changes the globals: whatever the request, \<open>model\<close> and
  \<open>breeds\<close> after it are what they were before it, for one request and for any
  sequence of requests. The image bytes, the tensor and the prediction arrays of a
  \<open>/predict\<close> request are values of the handler's own; the globals have no place for
  them.
\<close>

theorem handlers_leave_globals_unchanged:
  "snd (read_root s) = s
   \<and> snd (health_check w s) = s
   \<and> snd (model_info w s) = s
   \<and> snd (get_breeds s) = s
   \<and> snd (predict_breed w s file) = s
   \<and> snd (handle w s r) = s
   \<and> snd (serve s wrs) = s"
  by (simp add: handler_frames handle_frame serve_frame)

text \<open>
  C4, as amended. The service keeps nothing of a request: the response to a request is
  the one it would get alone, whatever was served before it. Two \<open>/predict\<close> requests
  with the same upload, against the same model and breeds, at times when the libraries
  answer alike, get the same response, unless both are answered with status 500: the
  detail of such a response is the text of the exception, which can differ from one
  request to the next.
\<close>

theorem predict_is_stateless_up_to_error_text:
  "fst (serve s wrs) = map (\<lambda>wr. fst (handle (fst wr) s (snd wr))) wrs
   \<and> fst (handle w (snd (serve s wrs)) (PostPredict file)) = fst (predict_breed w s file)
   \<and> (same_results w w' \<longrightarrow>
        status_code (fst (handle w (snd (serve s wrs)) (PostPredict file)))
          = status_code (fst (handle w' (snd (serve s wrs')) (PostPredict file)))
        \<and> (fst (handle w (snd (serve s wrs)) (PostPredict file))
             = fst (handle w' (snd (serve s wrs')) (PostPredict file))
           \<or> status_code (fst (handle w (snd (serve s wrs)) (PostPredict file))) = 500))"
proof (intro conjI impI)
  show "fst (serve s wrs) = map (\<lambda>wr. fst (handle (fst wr) s (snd wr))) wrs"
    by (rule serve_responses)
  show "fst (handle w (snd (serve s wrs)) (PostPredict file)) = fst (predict_breed w s file)"
    by (simp add: serve_frame)
next
  assume a: "same_results w w'"
  from predict_responses_agree[OF a, of s "file"]
  show "status_code (fst (handle w (snd (serve s wrs)) (PostPredict file)))
          = status_code (fst (handle w' (snd (serve s wrs')) (PostPredict file)))"
    by (auto simp: serve_frame)
  from predict_responses_agree[OF a, of s "file"]
  show "fst (handle w (snd (serve s wrs)) (PostPredict file))
             = fst (handle w' (snd (serve s wrs')) (PostPredict file))
           \<or> status_code (fst (handle w (snd (serve s wrs)) (PostPredict file))) = 500"
    by (auto simp: serve_frame)
qed

theorem predict_is_stateless_witness:
  "same_results example_world later_world
   \<and> fst (handle example_world
             (snd (serve (snd (startup_event example_world initial_state))
                     [(example_world, GetBreeds), (example_world, PostPredict truncated_upload)]))
             (PostPredict example_upload))
     = fst (handle later_world (snd (serve (snd (startup_event example_world initial_state)) []))
             (PostPredict example_upload))
   \<and> status_code (fst (handle example_world
             (snd (serve (snd (startup_event example_world initial_state))
                     [(example_world, GetBreeds), (example_world, PostPredict truncated_upload)]))
             (PostPredict example_upload))) = 200"
proof -
  let ?s = "snd (startup_event example_world initial_state)"
  let ?h = "[(example_world, GetBreeds), (example_world, PostPredict truncated_upload)]"
  have h: "same_results example_world later_world"
    by (simp add: same_results_def later_world_def example_world_def agree_def)
  note T = predict_is_stateless_up_to_error_text[of ?s ?h example_world example_upload
      later_world "[]"]
  have alone: "fst (handle example_world (snd (serve ?s ?h)) (PostPredict example_upload))
        = fst (predict_breed example_world ?s example_upload)"
    by (rule T[THEN conjunct2, THEN conjunct1])
  obtain t where t: "preprocess_image example_world example_image = Inr t"
    by (simp add: preprocess_image_def example_world_def example_image_def)
  have op: "image_open example_world example_png = Inr example_image"
    "keras_predict example_world mm t = Inr [[1 / 5, 7 / 10, 1 / 10]]" for mm
    by (simp_all add: example_world_def)
  have names: "display_name ''pug'' = ''Pug''" "display_name ''beagle'' = ''Beagle''"
    "display_name ''siberian_husky'' = ''Siberian Husky''"
    by code_simp+
  have srt: "np_argsort example_world [1 / 5, 7 / 10, 1 / 10] = [2, 0, 1]"
    by (simp add: np_argsort_def argsort_by_def example_world_def upt_rec less_eq_prod_def)
  have ok: "status_code (fst (predict_breed example_world ?s example_upload)) = 200"
    by (simp add: example_startup predict_breed_def predict_breed_try_def example_upload_def
        py_startswith_def bind_exn_simps op t get_pred_label_def np_argmax_def py_getitem_def
        row0_def np_max_def get_top_predictions_def srt py_slice_from_def py_display_def
        py_len_def names)
  then have s200: "status_code (fst (handle example_world (snd (serve ?s ?h))
                     (PostPredict example_upload))) = 200"
    using alone by simp
  from T[THEN conjunct2, THEN conjunct2, rule_format, OF h] s200
  have "fst (handle example_world (snd (serve ?s ?h)) (PostPredict example_upload))
        = fst (handle later_world (snd (serve ?s [])) (PostPredict example_upload))"
    by auto
  with h s200 show ?thesis by blast
qed

text \<open>
  Without the proviso the statement fails. The first four bytes of a PNG file are not
  an image: Pillow's exception names the address of the buffer that held them, the
  handler copies that text into the detail, and the same upload gets two responses.
\<close>

theorem predict_is_stateless_counterexample:
  "fst (predict_breed example_world (snd (startup_event example_world initial_state))
          truncated_upload)
     = HTTPException 500
         ''Error processing image: cannot identify image file <_io.BytesIO object at 0x7f3a5c1b2e30>''
   \<and> fst (predict_breed later_world (snd (startup_event example_world initial_state))
          truncated_upload)
     = HTTPException 500
         ''Error processing image: cannot identify image file <_io.BytesIO object at 0x7f3a5c1b2f70>''"
proof -
  have ne: "[137, 80, 78, 71] \<noteq> example_png" by (simp add: example_png_def)
  have o1: "image_open example_world [137, 80, 78, 71]
      = Inl (Exn LibraryError
               ''cannot identify image file <_io.BytesIO object at 0x7f3a5c1b2e30>'')"
    using ne by (simp add: example_world_def)
  have o2: "image_open later_world [137, 80, 78, 71]
      = Inl (Exn LibraryError
               ''cannot identify image file <_io.BytesIO object at 0x7f3a5c1b2f70>'')"
    using ne by (simp add: later_world_def)
  show ?thesis
    by (simp add: example_startup predict_breed_def predict_breed_try_def truncated_upload_def
        py_startswith_def bind_exn_simps o1 o2)
qed




text \<open>
  Which of two positions with the same component the sort puts first is numpy's
  choice, so on a tie for the maximum the first entry need not be the reported breed:
  with the order of the example world it is, with the order of positions it is not.
\<close>

lemma first_entry_on_a_tie:
  "get_pred_label w \<lparr>model = None, breeds = JList [JStr ''pug'', JStr ''beagle'']\<rparr>
       [[1 / 2, 1 / 2]] = Inr (JStr ''pug'')"
  "get_top_predictions example_world
       \<lparr>model = None, breeds = JList [JStr ''pug'', JStr ''beagle'']\<rparr> [[1 / 2, 1 / 2]] 3
     = Inr [top_entry ''Pug'' (1 / 2), top_entry ''Beagle'' (1 / 2)]"
  "get_top_predictions stable_world
       \<lparr>model = None, breeds = JList [JStr ''pug'', JStr ''beagle'']\<rparr> [[1 / 2, 1 / 2]] 3
     = Inr [top_entry ''Beagle'' (1 / 2), top_entry ''Pug'' (1 / 2)]"
proof -
  have names: "display_name ''pug'' = ''Pug''" "display_name ''beagle'' = ''Beagle''"
    by code_simp+
  have srt: "np_argsort example_world [1 / 2, 1 / 2] = [1, 0]"
    "np_argsort stable_world [1 / 2, 1 / 2] = [0, 1]"
    by (simp_all add: np_argsort_def argsort_by_def example_world_def stable_world_def upt_rec
        less_eq_prod_def)
  show "get_pred_label w \<lparr>model = None, breeds = JList [JStr ''pug'', JStr ''beagle'']\<rparr>
       [[1 / 2, 1 / 2]] = Inr (JStr ''pug'')"
    by (simp add: get_pred_label_def np_argmax_def py_getitem_def)
  show "get_top_predictions example_world
       \<lparr>model = None, breeds = JList [JStr ''pug'', JStr ''beagle'']\<rparr> [[1 / 2, 1 / 2]] 3
     = Inr [top_entry ''Pug'' (1 / 2), top_entry ''Beagle'' (1 / 2)]"
    by (simp add: get_top_predictions_def row0_def srt py_slice_from_def py_getitem_def
        py_display_def bind_exn_simps names)
  show "get_top_predictions stable_world
       \<lparr>model = None, breeds = JList [JStr ''pug'', JStr ''beagle'']\<rparr> [[1 / 2, 1 / 2]] 3
     = Inr [top_entry ''Beagle'' (1 / 2), top_entry ''Pug'' (1 / 2)]"
    by (simp add: get_top_predictions_def row0_def srt py_slice_from_def py_getitem_def
        py_display_def bind_exn_simps names)
qed

text \<open>
  C6, as amended. \<open>load_trained_model\<close> builds a model, restores the checkpoint into it
  and returns it; it returns \<open>None\<close> exactly when the build or the restoring raises. At
  startup, when every listed checkpoint is missing or fails to load, \<open>create_model\<close> is
  called again, outside any \<open>try\<close>: when that build succeeds the startup completes with
  the fresh model, whose parameters are not restored ones; when it raises, the startup
  ends with that exception.
\<close>

theorem load_trained_model_and_fallback:
  "(\<forall>m ws. create_model w s = Inr m \<and> read_checkpoint w (config m) path = Inr ws \<longrightarrow>
       load_trained_model w s path = Some (m\<lparr>weights := Some ws\<rparr>))
   \<and> (load_trained_model w s path = None \<longleftrightarrow>
        (\<exists>e. create_model w s = Inl e)
        \<or> (\<exists>m e. create_model w s = Inr m \<and> read_checkpoint w (config m) path = Inl e))
   \<and> (\<forall>xs. load_breeds w = Inr (JList xs)
          \<and> (\<forall>p\<in>set weights_paths. \<not> path_exists w p
                \<or> load_trained_model w (s\<lparr>breeds := JList xs\<rparr>) p = None) \<longrightarrow>
        (case create_model w (s\<lparr>breeds := JList xs\<rparr>) of
           Inr m \<Rightarrow> fst (startup_event w s) = None
                    \<and> model (snd (startup_event w s)) = Some m \<and> weights m = None
         | Inl e \<Rightarrow> fst (startup_event w s) = Some e))"
proof (intro conjI allI impI)
  fix m ws
  assume "create_model w s = Inr m \<and> read_checkpoint w (config m) path = Inr ws"
  then show "load_trained_model w s path = Some (m\<lparr>weights := Some ws\<rparr>)"
    by (simp add: load_trained_model_cases)
next
  show "load_trained_model w s path = None \<longleftrightarrow>
        (\<exists>e. create_model w s = Inl e)
        \<or> (\<exists>m e. create_model w s = Inr m \<and> read_checkpoint w (config m) path = Inl e)"
    by (auto simp: load_trained_model_cases split: sum.splits)
next
  fix xs
  assume a: "load_breeds w = Inr (JList xs)
          \<and> (\<forall>p\<in>set weights_paths. \<not> path_exists w p
                \<or> load_trained_model w (s\<lparr>breeds := JList xs\<rparr>) p = None)"
  then have lb: "load_breeds w = Inr (JList xs)"
    and nl: "\<forall>p\<in>set weights_paths. \<not> path_exists w p
                \<or> load_trained_model w (s\<lparr>breeds := JList xs\<rparr>) p = None"
    by simp_all
  have len: "py_len (JList xs) = Inr (length xs)" by (simp add: py_len_def)
  show "case create_model w (s\<lparr>breeds := JList xs\<rparr>) of
           Inr m \<Rightarrow> fst (startup_event w s) = None
                    \<and> model (snd (startup_event w s)) = Some m \<and> weights m = None
         | Inl e \<Rightarrow> fst (startup_event w s) = Some e"
    using startup_fallback[OF lb len nl] create_model_untrained[of w "s\<lparr>breeds := JList xs\<rparr>"]
    by (simp split: sum.splits)
qed

text \<open>
  Without the proviso the statement fails. When the checkpoint exists and the model
  cannot be built, \<open>load_trained_model\<close> returns \<open>None\<close>, the second build raises as the
  first did, and the startup ends with its exception.
\<close>

theorem startup_fallback_counterexample:
  "load_trained_model offline_world
       \<lparr>model = None,
          breeds = JList [JStr ''beagle'', JStr ''pug'', JStr ''siberian_husky'']\<rparr>
       ''20250619-08341750322059-full-dataset-dog-mobilenetv2-cj.weights.h5'' = None
   \<and> startup_event offline_world initial_state
     = (Some (Exn LibraryError ''hub download failed''),
        \<lparr>model = None,
           breeds = JList [JStr ''beagle'', JStr ''pug'', JStr ''siberian_husky'']\<rparr>)"
  by (simp add: offline_world_def example_world_def initial_state_def startup_event_def
        load_breeds_def py_len_def weights_paths_def load_trained_model_def create_model_def
        keras_sequential_def Let_def)

theorem load_trained_model_and_fallback_witness:
  "load_breeds example_world = Inr (JList [JStr ''beagle'', JStr ''pug'', JStr ''siberian_husky''])
   \<and> \<not> path_exists example_world (hd weights_paths)
   \<and> fst (startup_event example_world initial_state) = None
   \<and> (\<exists>m. model (snd (startup_event example_world initial_state)) = Some m \<and> weights m = None)
   \<and> (\<exists>m. load_trained_model
              (example_world\<lparr>read_checkpoint := (\<lambda>cfg path. Inr [1 / 2, 1 / 4])\<rparr>)
              \<lparr>model = None,
                 breeds = JList [JStr ''beagle'', JStr ''pug'', JStr ''siberian_husky'']\<rparr>
              (hd weights_paths) = Some m
          \<and> weights m = Some [1 / 2, 1 / 4])"
proof -
  let ?bs = "[JStr ''beagle'', JStr ''pug'', JStr ''siberian_husky'']"
  let ?s1 = "initial_state\<lparr>breeds := JList ?bs\<rparr>"
  let ?w2 = "example_world\<lparr>read_checkpoint := (\<lambda>cfg path. Inr [1 / 2, 1 / 4])\<rparr>"
  have lb: "load_breeds example_world = Inr (JList ?bs)"
    by (simp add: load_breeds_def example_world_def)
  have ne: "\<not> path_exists example_world (hd weights_paths)"
    by (simp add: example_world_def)
  have nl: "\<forall>p\<in>set weights_paths. \<not> path_exists example_world p
              \<or> load_trained_model example_world ?s1 p = None"
    by (simp add: example_world_def)
  obtain m where m: "create_model example_world ?s1 = Inr m"
    by (simp add: create_model_def keras_sequential_def example_world_def py_len_def Let_def)
  from load_trained_model_and_fallback[of example_world initial_state "hd weights_paths"] lb nl
  have "case create_model example_world ?s1 of
           Inr m \<Rightarrow> fst (startup_event example_world initial_state) = None
                    \<and> model (snd (startup_event example_world initial_state)) = Some m
                    \<and> weights m = None
         | Inl e \<Rightarrow> fst (startup_event example_world initial_state) = Some e"
    by blast
  with m have a: "fst (startup_event example_world initial_state) = None"
    "\<exists>m. model (snd (startup_event example_world initial_state)) = Some m \<and> weights m = None"
    by simp_all
  obtain m2 where m2: "create_model ?w2 \<lparr>model = None, breeds = JList ?bs\<rparr> = Inr m2"
    by (simp add: create_model_def keras_sequential_def example_world_def py_len_def Let_def)
  have rc: "read_checkpoint ?w2 (config m2) (hd weights_paths) = Inr [1 / 2, 1 / 4]" by simp
  from load_trained_model_and_fallback[of ?w2 "\<lparr>model = None, breeds = JList ?bs\<rparr>"
      "hd weights_paths"] m2 rc
  have "load_trained_model ?w2 \<lparr>model = None, breeds = JList ?bs\<rparr> (hd weights_paths)
          = Some (m2\<lparr>weights := Some [1 / 2, 1 / 4]\<rparr>)"
    by blast
  then have b: "\<exists>m. load_trained_model ?w2 \<lparr>model = None, breeds = JList ?bs\<rparr>
          (hd weights_paths) = Some m \<and> weights m = Some [1 / 2, 1 / 4]" by simp
  from lb ne a b show ?thesis by blast
qed

text \<open>
  C7. When \<open>breeds\<close> is a list of names, \<open>/breeds\<close> answers with \<open>total_breeds\<close> the
  length of the list and with \<open>breeds\<close> the list of the display names, in the order of
  the list: the \<open>i\<close>-th name returned is the \<open>i\<close>-th breed with its underscores replaced
  by spaces, then title-cased.
\<close>

theorem get_breeds_lists_every_breed:
  assumes "breeds s = JList (map JStr bs)"
  shows "\<exists>names. get_breeds s =
            (Response (JObj [(''total_breeds'', JInt (int (length bs))),
                             (''breeds'', JList names)]), s)
          \<and> length names = length bs
          \<and> (\<forall>i<length bs. names ! i =
                JStr (str_title (str_replace (CHR ''_'') (CHR '' '') (bs ! i))))"
  using assms
  by (simp add: get_breeds_def py_len_def py_iter_def bind_exn_simps map_exn_display
        display_name_def)

theorem get_breeds_lists_every_breed_witness:
  "breeds \<lparr>model = None, breeds = JList (map JStr [''great_dane'', ''pug''])\<rparr>
     = JList (map JStr [''great_dane'', ''pug''])
   \<and> get_breeds \<lparr>model = None, breeds = JList (map JStr [''great_dane'', ''pug''])\<rparr> =
       (Response (JObj [(''total_breeds'', JInt 2),
                        (''breeds'', JList [JStr ''Great Dane'', JStr ''Pug''])]),
        \<lparr>model = None, breeds = JList (map JStr [''great_dane'', ''pug''])\<rparr>)"
proof -
  let ?s = "\<lparr>model = None, breeds = JList (map JStr [''great_dane'', ''pug''])\<rparr>"
  have h: "breeds ?s = JList (map JStr [''great_dane'', ''pug''])" by simp
  from get_breeds_lists_every_breed[OF h]
  obtain names where n: "get_breeds ?s =
      (Response (JObj [(''total_breeds'', JInt (int (length [''great_dane'', ''pug'']))),
                       (''breeds'', JList names)]), ?s)"
     "length names = length [''great_dane'', ''pug'']"
     "\<forall>i<length [''great_dane'', ''pug'']. names ! i =
        JStr (str_title (str_replace (CHR ''_'') (CHR '' '') ([''great_dane'', ''pug''] ! i)))"
    by blast
  have "str_title (str_replace (CHR ''_'') (CHR '' '') ''great_dane'') = ''Great Dane''"
    "str_title (str_replace (CHR ''_'') (CHR '' '') ''pug'') = ''Pug''"
    by code_simp+
  then have "names ! 0 = JStr ''Great Dane''" "names ! 1 = JStr ''Pug''"
    using n(3) by simp_all
  then have "names = [JStr ''Great Dane'', JStr ''Pug'']"
    using n(2) by (cases names; cases "tl names"; cases "tl (tl names)") auto
  with n(1) h show ?thesis by simp
qed

text \<open>
  C8. With a breeds list of 120 entries, \<open>create_model\<close> of main.py makes the call
  that \<open>create_model\<close> of create_model.py makes with its default arguments: the same
  layers (an input of shape 224 x 224 x 3, the feature-vector layer of the same URL, a
  dense softmax layer of 120 units), the same loss, optimizer and metrics.
\<close>

theorem create_models_agree:
  assumes "breeds s = JList xs" and "length xs = 120"
  shows "create_model w s = cm_create_model w cm_INPUT_SHAPE cm_OUTPUT_SHAPE cm_MODEL_URL
       \<and> create_model w s =
           keras_sequential w
             [InputLayer [Some 224, Some 224, Some 3],
              LambdaHub ''https://kaggle.com/models/google/mobilenet-v2/TensorFlow2/100-224-feature-vector/1'',
              Dense 120 ''softmax'']
             ''CategoricalCrossentropy'' ''Adam'' [''accuracy'']"
  using assms
  by (simp add: create_model_def cm_create_model_def cm_INPUT_SHAPE_def cm_OUTPUT_SHAPE_def
        cm_MODEL_URL_def MODEL_URL_def IMG_SIZE_def cm_IMG_SIZE_def py_len_def py_slice_from_def)

theorem create_models_agree_witness:
  "breeds \<lparr>model = None, breeds = JList (replicate 120 (JStr ''pug''))\<rparr>
     = JList (replicate 120 (JStr ''pug''))
   \<and> length (replicate 120 (JStr ''pug'')) = 120
   \<and> create_model example_world \<lparr>model = None, breeds = JList (replicate 120 (JStr ''pug''))\<rparr>
       = cm_create_model example_world cm_INPUT_SHAPE cm_OUTPUT_SHAPE cm_MODEL_URL"
proof -
  let ?s = "\<lparr>model = None, breeds = JList (replicate 120 (JStr ''pug''))\<rparr>"
  have h1: "breeds ?s = JList (replicate 120 (JStr ''pug''))" by simp
  have h2: "length (replicate 120 (JStr ''pug'')) = 120" by simp
  from create_models_agree[OF h1 h2, of example_world] h1 h2 show ?thesis by blast
qed

text \<open>
  C9, as amended. When \<open>breeds.json\<close> does not exist, \<open>load_breeds\<close> returns the integer
  \<open>-1\<close>, and \<open>startup_event\<close> ends with the \<open>TypeError\<close> of \<open>len(breeds)\<close>, leaving
  \<open>breeds = -1\<close>: the service never runs on fallback breeds. When \<open>breeds.json\<close> is
  opened and parsed, \<open>breeds\<close> is the value it holds, whatever its kind: on the startup
  path \<open>breeds\<close> is a list exactly when the file holds an array, and a startup that
  completes has read a value with a length, a list, a string or an object.
\<close>

theorem missing_breeds_file_fails_startup:
  "(\<forall>msg. breeds_json w = Inl (Exn FileNotFoundError msg) \<longrightarrow>
       load_breeds w = Inr (JInt (- 1))
     \<and> startup_event w s =
         (Some (Exn TypeError ''object of type 'int' has no len()''), s\<lparr>breeds := JInt (- 1)\<rparr>))
   \<and> (\<forall>v. breeds_json w = Inr v \<longrightarrow> breeds (snd (startup_event w s)) = v)
   \<and> ((\<exists>xs. breeds (snd (startup_event w initial_state)) = JList xs)
        \<longleftrightarrow> (\<exists>xs. breeds_json w = Inr (JList xs)))
   \<and> (fst (startup_event w initial_state) = None \<longrightarrow>
        (\<exists>v n. breeds_json w = Inr v \<and> py_len v = Inr n
               \<and> breeds (snd (startup_event w initial_state)) = v))"
proof (intro conjI allI impI)
  fix msg
  assume a: "breeds_json w = Inl (Exn FileNotFoundError msg)"
  then show "load_breeds w = Inr (JInt (- 1))" by (simp add: load_breeds_def)
  then show "startup_event w s =
         (Some (Exn TypeError ''object of type 'int' has no len()''), s\<lparr>breeds := JInt (- 1)\<rparr>)"
    by (simp add: startup_event_def py_len_def py_type_name_def quoted_def)
next
  fix v
  assume "breeds_json w = Inr v"
  then have "load_breeds w = Inr v" by (rule load_breeds_parsed)
  then show "breeds (snd (startup_event w s)) = v" by (simp add: startup_breeds)
next
  show "(\<exists>xs. breeds (snd (startup_event w initial_state)) = JList xs)
        \<longleftrightarrow> (\<exists>xs. breeds_json w = Inr (JList xs))"
  proof
    assume "\<exists>xs. breeds (snd (startup_event w initial_state)) = JList xs"
    then obtain xs where "load_breeds w = Inr (JList xs)"
      by (cases "load_breeds w") (auto simp: startup_breeds initial_state_def)
    then show "\<exists>xs. breeds_json w = Inr (JList xs)" by (auto simp: load_breeds_list)
  next
    assume "\<exists>xs. breeds_json w = Inr (JList xs)"
    then obtain xs where "load_breeds w = Inr (JList xs)" by (auto simp: load_breeds_list)
    then show "\<exists>xs. breeds (snd (startup_event w initial_state)) = JList xs"
      by (simp add: startup_breeds)
  qed
next
  assume "fst (startup_event w initial_state) = None"
  from startup_completes_len[OF this] obtain v n
    where lb: "load_breeds w = Inr v" and len: "py_len v = Inr n"
    by blast
  have "v \<noteq> JInt (- 1)" using len by (auto simp: py_len_def)
  then have "breeds_json w = Inr v" using load_breeds_cases[OF lb] by blast
  moreover have "breeds (snd (startup_event w initial_state)) = v"
    by (simp add: startup_breeds lb)
  ultimately
  show "\<exists>v n. breeds_json w = Inr v \<and> py_len v = Inr n
               \<and> breeds (snd (startup_event w initial_state)) = v"
    using len by blast
qed

theorem missing_breeds_file_witness:
  "breeds_json (example_world\<lparr>breeds_json := Inl (Exn FileNotFoundError ''breeds.json'')\<rparr>)
     = Inl (Exn FileNotFoundError ''breeds.json'')
   \<and> load_breeds (example_world\<lparr>breeds_json := Inl (Exn FileNotFoundError ''breeds.json'')\<rparr>)
       = Inr (JInt (- 1))
   \<and> startup_event (example_world\<lparr>breeds_json := Inl (Exn FileNotFoundError ''breeds.json'')\<rparr>)
        initial_state
       = (Some (Exn TypeError ''object of type 'int' has no len()''),
          \<lparr>model = None, breeds = JInt (- 1)\<rparr>)
   \<and> fst (startup_event example_world initial_state) = None
   \<and> breeds_json example_world = Inr (JList [JStr ''beagle'', JStr ''pug'', JStr ''siberian_husky''])
   \<and> breeds (snd (startup_event example_world initial_state))
       = JList [JStr ''beagle'', JStr ''pug'', JStr ''siberian_husky'']"
proof -
  let ?w = "example_world\<lparr>breeds_json := Inl (Exn FileNotFoundError ''breeds.json'')\<rparr>"
  note T = missing_breeds_file_fails_startup
  have h: "breeds_json ?w = Inl (Exn FileNotFoundError ''breeds.json'')" by simp
  have a: "load_breeds ?w = Inr (JInt (- 1))
     \<and> startup_event ?w initial_state =
         (Some (Exn TypeError ''object of type 'int' has no len()''),
          initial_state\<lparr>breeds := JInt (- 1)\<rparr>)"
    by (rule T[of ?w initial_state, THEN conjunct1, rule_format, OF h])
  have c: "fst (startup_event example_world initial_state) = None"
    by (simp add: example_startup)
  have j: "breeds_json example_world
             = Inr (JList [JStr ''beagle'', JStr ''pug'', JStr ''siberian_husky''])"
    by (simp add: example_world_def)
  have b: "breeds (snd (startup_event example_world initial_state))
       = JList [JStr ''beagle'', JStr ''pug'', JStr ''siberian_husky'']"
    by (rule T[of example_world initial_state, THEN conjunct2, THEN conjunct1, rule_format, OF j])
  from a c j b h show ?thesis by (simp add: initial_state_def)
qed

text \<open>
  Without the restriction to arrays the statement fails. A \<open>breeds.json\<close> that holds an
  object is opened and parsed, the startup completes, and \<open>breeds\<close> is not a list.
\<close>

theorem breeds_not_a_list_counterexample:
  "breeds_json dict_world = Inr (JObj [(''pug'', JInt 0), (''beagle'', JInt 1)])
   \<and> fst (startup_event dict_world initial_state) = None
   \<and> breeds (snd (startup_event dict_world initial_state))
       = JObj [(''pug'', JInt 0), (''beagle'', JInt 1)]"
  by (simp add: dict_world_def example_world_def initial_state_def startup_event_def
        load_breeds_def py_len_def weights_paths_def create_model_def keras_sequential_def Let_def)

text \<open>
  C10. An upload whose part carries no content type has \<open>content_type = None\<close>; with a
  model loaded, \<open>predict_breed\<close> then raises \<open>AttributeError\<close> on \<open>startswith\<close>, before
  its \<open>try\<close> block, and the request is answered with status 500 where an upload that
  is not an image is to get 400.
\<close>

theorem predict_without_content_type:
  "fst (predict_breed example_world (snd (startup_event example_world initial_state))
          \<lparr>filename = Some ''dog.png'', content_type = None, file_read = Inr [137, 80, 78, 71]\<rparr>)
     = Unhandled (Exn AttributeError
         (CHR 0x27 # ''NoneType' object has no attribute 'startswith'' @ [CHR 0x27]))
   \<and> status_code
         (fst (predict_breed example_world (snd (startup_event example_world initial_state))
            \<lparr>filename = Some ''dog.png'', content_type = None, file_read = Inr [137, 80, 78, 71]\<rparr>))
       = 500"
  by (simp add: example_startup predict_breed_def)

end
